theory Spec2Isabelle
  imports Complex_Main
begin

section \<open>The HTTP client core of \<open>src/services/api.ts\<close>\<close>

text \<open>
  The module wraps the platform's \<open>fetch\<close> with a timeout, interprets the
  response, normalises failures into \<open>ApiError\<close> and offers a fixed-delay retry
  loop. Promises are modelled by their settlement: a call returns \<open>Inr v\<close> when its
  promise resolves with \<open>v\<close> and \<open>Inl e\<close> when it rejects with (or the code throws)
  \<open>e\<close>. The mutable parts (the default headers of \<open>apiClient\<close>, the pending
  timers, the requests handed to \<open>fetch\<close>) are a state record passed through,
  together with a clock in milliseconds.
\<close>

subsection \<open>JavaScript values\<close>

text \<open>
  The values a response body can parse to, and \<open>undefined\<close>. A number is a
  rational: every finite double is one, and the code only asks whether a number is
  zero. An object is its list of own properties.
\<close>

datatype jsval =
    JUndefined
  | JNull
  | JBool bool
  | JNum rat
  | JStr string
  | JArr "jsval list"
  | JObj "(string \<times> jsval) list"

text \<open>
  An \<open>ApiError\<close> object: its \<open>status\<close>, the \<open>message\<close> that \<open>Error\<close> stores
  (always a string, see \<open>throw_ApiError\<close> below) and its \<open>data\<close>, \<open>None\<close> when the
  argument was omitted.
\<close>

datatype api_error = ApiError int jsval "jsval option"

text \<open>
  What a \<open>throw\<close> or a rejected promise can carry: an \<open>ApiError\<close>; any other
  instance of \<open>Error\<close> with its \<open>name\<close> and \<open>message\<close> (a \<open>TypeError\<close>, the
  \<open>DOMException\<close> of an abort, ...); or a value that is no \<open>Error\<close> at all.
\<close>

datatype thrown =
    ApiErr api_error
  | JsError string string
  | NonError jsval

text \<open>The conversion to boolean that \<open>||\<close> and \<open>&&\<close> apply.\<close>

fun truthy :: "jsval \<Rightarrow> bool" where
  "truthy JUndefined = False"
| "truthy JNull = False"
| "truthy (JBool b) = b"
| "truthy (JNum n) = (n \<noteq> 0)"
| "truthy (JStr s) = (s \<noteq> [])"
| "truthy (JArr xs) = True"
| "truthy (JObj fs) = True"

text \<open>\<open>a || b\<close>\<close>

definition js_or :: "jsval \<Rightarrow> jsval \<Rightarrow> jsval" where
  "js_or a b = (if truthy a then a else b)"

text \<open>\<open>typeof v === "object"\<close>: true of \<open>null\<close>, of arrays and of objects.\<close>

fun typeof_object :: "jsval \<Rightarrow> bool" where
  "typeof_object JNull = True"
| "typeof_object (JArr xs) = True"
| "typeof_object (JObj fs) = True"
| "typeof_object v = False"

text \<open>
  The member access \<open>v.key\<close>, for a key that no prototype defines (the code reads
  \<open>data\<close> and \<open>message\<close> only): on \<open>null\<close> and \<open>undefined\<close> it throws a
  \<open>TypeError\<close> (the message is V8's), on an object it yields the own property or
  \<open>undefined\<close>, on every other value \<open>undefined\<close>.
\<close>

definition null_access_message :: "string \<Rightarrow> string \<Rightarrow> string" where
  "null_access_message what key =
     ''Cannot read properties of '' @ what @ '' (reading '' @ [CHR 0x27] @ key @ [CHR 0x27] @ '')''"

fun get_member :: "jsval \<Rightarrow> string \<Rightarrow> thrown + jsval" where
  "get_member JNull key = Inl (JsError ''TypeError'' (null_access_message ''null'' key))"
| "get_member JUndefined key = Inl (JsError ''TypeError'' (null_access_message ''undefined'' key))"
| "get_member (JObj fs) key = Inr (case map_of fs key of None \<Rightarrow> JUndefined | Some v \<Rightarrow> v)"
| "get_member v key = Inr JUndefined"

text \<open>\<open>s.includes(p)\<close> on strings.\<close>

fun starts_with :: "string \<Rightarrow> string \<Rightarrow> bool" where
  "starts_with s [] = True"
| "starts_with [] (c # p) = False"
| "starts_with (d # s) (c # p) = (d = c \<and> starts_with s p)"

fun includes_str :: "string \<Rightarrow> string \<Rightarrow> bool" where
  "includes_str [] p = (p = [])"
| "includes_str (d # s) p = (starts_with (d # s) p \<or> includes_str s p)"

text \<open>The decimal digits of a natural number (the keys of an array are these).\<close>

fun decimal :: "nat \<Rightarrow> string" where
  "decimal n =
     (if n < 10 then [''0123456789'' ! n] else decimal (n div 10) @ [''0123456789'' ! (n mod 10)])"

declare decimal.simps [simp del]

text \<open>\<open>xs.join(",")\<close> on strings.\<close>

fun comma_join :: "string list \<Rightarrow> string" where
  "comma_join [] = []"
| "comma_join [s] = s"
| "comma_join (s # t # ts) = s @ '','' @ comma_join (t # ts)"

text \<open>
  \<open>ToString\<close> on the values above, with the platform's printing of numbers as
  the parameter \<open>P\<close>. An array is the join of its elements, \<open>null\<close> and
  \<open>undefined\<close> elements counting as empty. A parsed object has no callable
  property, so it is \<open>[object Object]\<close> unless it has an own property
  \<open>toString\<close>, which hides \<open>Object.prototype.toString\<close>: then no conversion to a
  primitive is found and a \<open>TypeError\<close> is thrown.
\<close>

fun to_string :: "(rat \<Rightarrow> string) \<Rightarrow> jsval \<Rightarrow> thrown + string"
  and join_elements :: "(rat \<Rightarrow> string) \<Rightarrow> jsval list \<Rightarrow> thrown + string" where
  "to_string P JUndefined = Inr ''undefined''"
| "to_string P JNull = Inr ''null''"
| "to_string P (JBool b) = Inr (if b then ''true'' else ''false'')"
| "to_string P (JNum n) = Inr (P n)"
| "to_string P (JStr s) = Inr s"
| "to_string P (JArr xs) = join_elements P xs"
| "to_string P (JObj fs) =
     (if map_of fs ''toString'' = None then Inr ''[object Object]''
      else Inl (JsError ''TypeError'' ''Cannot convert object to primitive value''))"
| "join_elements P [] = Inr []"
| "join_elements P (x # xs) =
     (case (if x = JUndefined \<or> x = JNull then Inr [] else to_string P x) of
        Inl e \<Rightarrow> Inl e
      | Inr s \<Rightarrow>
          if xs = [] then Inr s
          else (case join_elements P xs of Inl e \<Rightarrow> Inl e | Inr t \<Rightarrow> Inr (s @ '','' @ t)))"

subsection \<open>Requests, responses and the environment\<close>

datatype upload_file = File string string

datatype body = JsonText string | FormData "(string \<times> upload_file) list"

text \<open>
  The forms of \<open>RequestInit.headers\<close>: a plain object, a \<open>Headers\<close> instance
  (with its entries), or an array of arrays of strings.
\<close>

datatype headers_init =
    HeadersRecord "string \<rightharpoonup> string"
  | HeadersInstance "(string \<times> string) list"
  | HeadersPairs "string list list"

text \<open>
  \<open>RequestConfig\<close> (a \<open>RequestInit\<close> with a \<open>timeout\<close>); \<open>None\<close> is an absent
  property. The object handed to \<open>fetch\<close> has the same shape. Its \<open>signal\<close> belongs to
  the controller of the call, which the timer of the call aborts.
\<close>

record request_config =
  "method" :: "string option"
  headers :: "headers_init option"
  body :: "body option"
  credentials :: "string option"
  timeout :: "int option"

text \<open>
  A \<open>Response\<close> as \<open>handleResponse\<close> sees it: the status, the \<open>content-type\<close>
  header (\<open>None\<close> when \<open>headers.get\<close> returns \<open>null\<close>), how \<open>json()\<close> and
  \<open>text()\<close> settle (\<open>json_body\<close>, \<open>text_body\<close>), and the milliseconds that reading
  the body takes.
\<close>

record response =
  status :: int
  content_type :: "string option"
  json_body :: "thrown + jsval"
  text_body :: "thrown + string"
  read_ms :: nat

text \<open>\<open>response.ok\<close>\<close>

definition ok :: "response \<Rightarrow> bool" where
  "ok r = (200 \<le> status r \<and> status r \<le> 299)"

text \<open>
  What the transport does with a call of \<open>fetch\<close> that nobody aborts: it
  resolves with a response, it rejects, or it never settles.
\<close>

datatype net_event =
    Replied response
  | Failed thrown
  | Never

text \<open>
  The imports from \<open>@/config/api\<close> and the platform, taken as parameters:
  \<^item> \<open>buildApiUrl\<close>, the fields of \<open>API_CONFIG\<close> and of \<open>API_ERROR_MESSAGES\<close>
    (\<open>TIMEOUT_ERROR\<close> is \<open>API_ERROR_MESSAGES.TIMEOUT\<close>, \<open>TIMEOUT\<close> is
    \<open>API_CONFIG.TIMEOUT\<close>);
  \<^item> \<open>fetch\<close>: what the transport does with a request, and \<open>latency\<close>: after how
    many milliseconds it does so (of no meaning for \<open>Never\<close>);
  \<^item> \<open>timer_delay\<close>: the milliseconds after which \<open>setTimeout\<close> runs a callback
    scheduled with a given delay;
  \<^item> \<open>abort_message\<close>: the message of the \<open>DOMException\<close> named \<open>AbortError\<close>
    with which an aborted \<open>fetch\<close> rejects;
  \<^item> \<open>number_to_string\<close>: the platform's printing of a number.
\<close>

record env =
  buildApiUrl :: "string \<Rightarrow> thrown + string"
  fetch :: "string \<Rightarrow> request_config \<Rightarrow> net_event"
  latency :: "string \<Rightarrow> request_config \<Rightarrow> nat"
  timer_delay :: "int \<Rightarrow> nat"
  abort_message :: string
  number_to_string :: "rat \<Rightarrow> string"
  TIMEOUT :: int
  DEFAULT_HEADERS :: "string \<rightharpoonup> string"
  RETRY_ATTEMPTS :: int
  RETRY_DELAY :: int
  UNAUTHORIZED :: string
  FORBIDDEN :: string
  NOT_FOUND :: string
  SERVER_ERROR :: string
  TIMEOUT_ERROR :: string
  NETWORK_ERROR :: string

text \<open>
  \<open>throw new ApiError(status, message, data)\<close>. The constructor calls
  \<open>super(message)\<close>, and \<open>Error\<close> stores the string conversion of a message that
  is not \<open>undefined\<close> (for \<open>undefined\<close> the message is the empty string of the
  prototype). When that conversion throws, its \<open>TypeError\<close> is what is thrown.
\<close>

definition throw_ApiError :: "env \<Rightarrow> int \<Rightarrow> jsval \<Rightarrow> jsval option \<Rightarrow> thrown" where
  "throw_ApiError E code message d =
     (if message = JUndefined then ApiErr (ApiError code (JStr []) d)
      else (case to_string (number_to_string E) message of
              Inl e \<Rightarrow> e
            | Inr s \<Rightarrow> ApiErr (ApiError code (JStr s) d)))"

text \<open>
  The state: \<open>apiClient.defaultHeaders\<close>; the timers (the next handle, the
  pending ones with their delay, and the log of what happened to them); the clock;
  and every \<open>(resource, init)\<close> passed to \<open>fetch\<close> so far, oldest first.
\<close>

datatype timer_event = Scheduled nat int | Fired nat | Cleared nat

record client_state =
  defaultHeaders :: "string \<rightharpoonup> string"
  next_timer :: nat
  pending :: "nat \<rightharpoonup> int"
  timer_log :: "timer_event list"
  clock :: nat
  sent :: "(string \<times> request_config) list"

text \<open>The module's initial \<open>defaultHeaders\<close>, copied into \<open>apiClient\<close>.\<close>

definition initial_state :: "env \<Rightarrow> client_state" where
  "initial_state E =
     \<lparr>defaultHeaders = (DEFAULT_HEADERS E)(''Accept'' \<mapsto> ''application/json''),
      next_timer = 0, pending = Map.empty, timer_log = [], clock = 0, sent = []\<rparr>"

definition setTimeout :: "int \<Rightarrow> client_state \<Rightarrow> nat \<times> client_state" where
  "setTimeout ms st =
     (next_timer st,
      st\<lparr>next_timer := Suc (next_timer st),
         pending := (pending st)(next_timer st \<mapsto> ms),
         timer_log := timer_log st @ [Scheduled (next_timer st) ms]\<rparr>)"

definition clearTimeout :: "nat \<Rightarrow> client_state \<Rightarrow> client_state" where
  "clearTimeout tid st =
     st\<lparr>pending := (pending st)(tid := None), timer_log := timer_log st @ [Cleared tid]\<rparr>"

text \<open>A timer whose callback runs is no longer pending.\<close>

definition timer_fired :: "nat \<Rightarrow> client_state \<Rightarrow> client_state" where
  "timer_fired tid st =
     st\<lparr>pending := (pending st)(tid := None), timer_log := timer_log st @ [Fired tid]\<rparr>"

text \<open>An \<open>await\<close> that takes \<open>t\<close> milliseconds.\<close>

definition elapse :: "nat \<Rightarrow> client_state \<Rightarrow> client_state" where
  "elapse t st = st\<lparr>clock := clock st + t\<rparr>"

text \<open>
  The spread \<open>...h\<close> of an optional headers object into an object literal copies
  its own enumerable properties: the entries of a plain object; nothing of a
  \<open>Headers\<close> instance, whose entries are not properties; of an array its elements
  under their indices (each an array of strings, given here as \<open>fetch\<close> reads it,
  joined by commas).
\<close>

definition spread_headers :: "headers_init option \<Rightarrow> (string \<rightharpoonup> string)" where
  "spread_headers h =
     (case h of
        None \<Rightarrow> Map.empty
      | Some (HeadersRecord m) \<Rightarrow> m
      | Some (HeadersInstance entries) \<Rightarrow> Map.empty
      | Some (HeadersPairs ps) \<Rightarrow> map_of (zip (map decimal [0..<length ps]) (map comma_join ps)))"

subsection \<open>\<open>fetchWithTimeout\<close>\<close>

text \<open>\<open>const { timeout = API_CONFIG.TIMEOUT } = config\<close>\<close>

definition timeout_of :: "env \<Rightarrow> request_config \<Rightarrow> int" where
  "timeout_of E config = (case timeout config of None \<Rightarrow> TIMEOUT E | Some t \<Rightarrow> t)"

text \<open>
  The object literal passed to \<open>fetch\<close>: the configuration with
  \<open>credentials\<close> set and with \<open>headers\<close> replaced by a new object, the default
  headers, read from \<open>apiClient\<close> at this moment, overlaid with the spread of the
  call's own.
\<close>

definition fetch_init :: "client_state \<Rightarrow> request_config \<Rightarrow> request_config" where
  "fetch_init st config =
     config\<lparr>credentials := Some ''include'',
            headers := Some (HeadersRecord (defaultHeaders st ++ spread_headers (headers config)))\<rparr>"

text \<open>
  The timer is scheduled, \<open>fetch\<close> is called and awaited. When the transport
  settles before the timer is due, the \<open>try\<close> block clears the timer and returns
  the response, or the \<open>catch\<close> block clears it and rethrows. Otherwise (a transport
  that settles exactly when the timer is due counts as too late) the callback of the
  timer aborts the controller, \<open>fetch\<close> rejects with the \<open>AbortError\<close>, and the
  \<open>catch\<close> block clears the timer, which has run, and rethrows.
\<close>

definition fetchWithTimeout ::
  "env \<Rightarrow> client_state \<Rightarrow> string \<Rightarrow> request_config \<Rightarrow> (thrown + response) \<times> client_state" where
  "fetchWithTimeout E st resource config =
     (let ms = timeout_of E config;
          (tid, st1) = setTimeout ms st;
          init = fetch_init st1 config;
          st2 = st1\<lparr>sent := sent st1 @ [(resource, init)]\<rparr>;
          aborted = (Inl (JsError ''AbortError'' (abort_message E)),
                     clearTimeout tid (timer_fired tid (elapse (timer_delay E ms) st2)))
      in case fetch E resource init of
           Replied r \<Rightarrow>
             if latency E resource init < timer_delay E ms
             then (Inr r, clearTimeout tid (elapse (latency E resource init) st2))
             else aborted
         | Failed error \<Rightarrow>
             if latency E resource init < timer_delay E ms
             then (Inl error, clearTimeout tid (elapse (latency E resource init) st2))
             else aborted
         | Never \<Rightarrow> aborted)"

subsection \<open>\<open>handleResponse\<close>\<close>

definition INVALID_FORMAT :: string where
  "INVALID_FORMAT = ''Invalid response format from server''"

text \<open>The two Vietnamese literals of the source, as their UTF-8 bytes.\<close>

definition INVALID_DATA :: string where
  "INVALID_DATA =
     ''D'' @ [CHR 0xE1, CHR 0xBB, CHR 0xAF] @ '' li'' @ [CHR 0xE1, CHR 0xBB, CHR 0x87] @ ''u kh''
     @ [CHR 0xC3, CHR 0xB4] @ ''ng h'' @ [CHR 0xE1, CHR 0xBB, CHR 0xA3] @ ''p l''
     @ [CHR 0xE1, CHR 0xBB, CHR 0x87]"

definition CANNOT_CONNECT :: string where
  "CANNOT_CONNECT =
     ''Kh'' @ [CHR 0xC3, CHR 0xB4] @ ''ng th'' @ [CHR 0xE1, CHR 0xBB, CHR 0x83] @ '' k''
     @ [CHR 0xE1, CHR 0xBA, CHR 0xBF] @ ''t n'' @ [CHR 0xE1, CHR 0xBB, CHR 0x91] @ ''i ''
     @ [CHR 0xC4, CHR 0x91, CHR 0xE1, CHR 0xBA, CHR 0xBF] @ ''n server. Vui l''
     @ [CHR 0xC3, CHR 0xB2] @ ''ng ki'' @ [CHR 0xE1, CHR 0xBB, CHR 0x83] @ ''m tra k''
     @ [CHR 0xE1, CHR 0xBA, CHR 0xBF] @ ''t n'' @ [CHR 0xE1, CHR 0xBB, CHR 0x91] @ ''i m''
     @ [CHR 0xE1, CHR 0xBA, CHR 0xA1] @ ''ng ho'' @ [CHR 0xE1, CHR 0xBA, CHR 0xB7] @ ''c th''
     @ [CHR 0xE1, CHR 0xBB, CHR 0xAD] @ '' l'' @ [CHR 0xE1, CHR 0xBA, CHR 0xA1] @ ''i sau.''"

text \<open>The \<open>try\<close> block that reads the body: \<open>json()\<close> when the content type
  includes \<open>application/json\<close>, \<open>text()\<close> otherwise (also without a content type).\<close>

definition read_body :: "response \<Rightarrow> thrown + jsval" where
  "read_body r =
     (if (case content_type r of None \<Rightarrow> False | Some ct \<Rightarrow> includes_str ct ''application/json'')
      then json_body r
      else (case text_body r of Inl e \<Rightarrow> Inl e | Inr s \<Rightarrow> Inr (JStr s)))"

definition handleResponse :: "env \<Rightarrow> response \<Rightarrow> thrown + jsval" where
  "handleResponse E r =
     (case read_body r of
        Inl error \<Rightarrow> Inl (throw_ApiError E (status r) (JStr INVALID_FORMAT) None)
      | Inr data \<Rightarrow>
          if \<not> ok r then
            (let safeData = (if truthy data \<and> typeof_object data then data else JObj [])
             in case get_member safeData ''message'' of
                  Inl e \<Rightarrow> Inl e
                | Inr message \<Rightarrow>
                    if status r = 400 then
                      Inl (throw_ApiError E (status r) (js_or message (JStr INVALID_DATA)) (Some safeData))
                    else if status r = 401 then
                      Inl (throw_ApiError E (status r) (js_or message (JStr (UNAUTHORIZED E))) (Some safeData))
                    else if status r = 403 then
                      Inl (throw_ApiError E (status r) (js_or message (JStr (FORBIDDEN E))) (Some safeData))
                    else if status r = 404 then
                      Inl (throw_ApiError E (status r) (js_or message (JStr (NOT_FOUND E))) (Some safeData))
                    else
                      Inl (throw_ApiError E (status r) (js_or message (JStr (SERVER_ERROR E))) (Some safeData)))
          else
            (case get_member data ''data'' of
               Inl e \<Rightarrow> Inl e
             | Inr d \<Rightarrow> Inr (js_or d data)))"

subsection \<open>\<open>apiClient\<close>\<close>

definition setDefaultHeaders :: "(string \<rightharpoonup> string) \<Rightarrow> client_state \<Rightarrow> client_state" where
  "setDefaultHeaders hs st = st\<lparr>defaultHeaders := defaultHeaders st ++ hs\<rparr>"

definition removeDefaultHeader :: "string \<Rightarrow> client_state \<Rightarrow> client_state" where
  "removeDefaultHeader headerName st = st\<lparr>defaultHeaders := (defaultHeaders st)(headerName := None)\<rparr>"

text \<open>The \<open>catch\<close> block of \<open>request\<close>.\<close>

definition request_catch :: "env \<Rightarrow> thrown \<Rightarrow> thrown" where
  "request_catch E error =
     (case error of
        ApiErr a \<Rightarrow> ApiErr a
      | JsError name msg \<Rightarrow>
          if name = ''AbortError'' then throw_ApiError E 408 (JStr (TIMEOUT_ERROR E)) None
          else if includes_str msg ''Failed to fetch'' then throw_ApiError E 0 (JStr CANNOT_CONNECT) None
          else throw_ApiError E 0 (JStr (NETWORK_ERROR E)) None
      | NonError v \<Rightarrow> throw_ApiError E 0 (JStr (SERVER_ERROR E)) None)"

text \<open>
  \<open>request\<close>. The \<open>try\<close> block covers \<open>buildApiUrl\<close> and the awaited
  \<open>fetchWithTimeout\<close>. Its last statement is \<open>return handleResponse(response)\<close>
  without \<open>await\<close>: the promise is returned as it is, the block is left, and a
  rejection of that promise settles the promise of \<open>request\<close> without passing
  through \<open>catch\<close>. Reading the body inside \<open>handleResponse\<close> takes its time
  after the timer of \<open>fetchWithTimeout\<close> was cleared.
\<close>

definition request ::
  "env \<Rightarrow> client_state \<Rightarrow> string \<Rightarrow> request_config \<Rightarrow> (thrown + jsval) \<times> client_state" where
  "request E st endpoint config =
     (case buildApiUrl E endpoint of
        Inl error \<Rightarrow> (Inl (request_catch E error), st)
      | Inr url \<Rightarrow>
          (case fetchWithTimeout E st url config of
             (Inl error, st') \<Rightarrow> (Inl (request_catch E error), st')
           | (Inr r, st') \<Rightarrow> (handleResponse E r, elapse (read_ms r) st')))"

text \<open>\<open>{...base, ...config}\<close>: a property present in \<open>config\<close> wins.\<close>

definition spread_config :: "request_config \<Rightarrow> request_config \<Rightarrow> request_config" where
  "spread_config base config =
     \<lparr>method = (case method config of None \<Rightarrow> method base | Some m \<Rightarrow> Some m),
      headers = (case headers config of None \<Rightarrow> headers base | Some h \<Rightarrow> Some h),
      body = (case body config of None \<Rightarrow> body base | Some b \<Rightarrow> Some b),
      credentials = (case credentials config of None \<Rightarrow> credentials base | Some c \<Rightarrow> Some c),
      timeout = (case timeout config of None \<Rightarrow> timeout base | Some t \<Rightarrow> Some t)\<rparr>"

text \<open>The default \<open>config = {}\<close>.\<close>

definition empty_config :: request_config where
  "empty_config = \<lparr>method = None, headers = None, body = None, credentials = None, timeout = None\<rparr>"

definition upload ::
  "env \<Rightarrow> client_state \<Rightarrow> string \<Rightarrow> upload_file \<Rightarrow> request_config \<Rightarrow> (thrown + jsval) \<times> client_state" where
  "upload E st endpoint f config =
     (let formData = FormData [(''file'', f)]
      in request E st endpoint
           (spread_config
              (empty_config\<lparr>method := Some ''POST'', body := Some formData,
                 headers := Some (HeadersRecord Map.empty)\<rparr>)
              config))"

subsection \<open>\<open>retryRequest\<close>\<close>

text \<open>
  The operation is any effectful function: it takes its state and returns how its
  promise settles and the new state. The trace records each invocation and each wait
  with its delay. \<open>lastError\<close> is \<open>None\<close> while it is \<open>undefined\<close>; throwing it then
  throws \<open>undefined\<close>.
\<close>

datatype event = Invoked | Waited int

function retry_loop ::
  "('s \<Rightarrow> (thrown + 'a) \<times> 's) \<Rightarrow> int \<Rightarrow> int \<Rightarrow> int \<Rightarrow> thrown option \<Rightarrow> 's \<Rightarrow> event list
     \<Rightarrow> (thrown + 'a) \<times> 's \<times> event list" where
  "retry_loop requestFn maxRetries delay i lastError s tr =
     (if i < maxRetries then
        (case requestFn s of
           (Inr v, s') \<Rightarrow> (Inr v, s', tr @ [Invoked])
         | (Inl error, s') \<Rightarrow>
             retry_loop requestFn maxRetries delay (i + 1) (Some error) s'
               (tr @ [Invoked] @ (if i < maxRetries - 1 then [Waited delay] else [])))
      else
        (Inl (case lastError of None \<Rightarrow> NonError JUndefined | Some e \<Rightarrow> e), s, tr))"
  by pat_completeness auto
termination
  by (relation "measure (\<lambda>(requestFn, maxRetries, delay, i, lastError, s, tr). nat (maxRetries - i))") auto

definition retryRequest ::
  "env \<Rightarrow> ('s \<Rightarrow> (thrown + 'a) \<times> 's) \<Rightarrow> int option \<Rightarrow> int option \<Rightarrow> 's
     \<Rightarrow> (thrown + 'a) \<times> 's \<times> event list" where
  "retryRequest E requestFn maxRetries delay s =
     retry_loop requestFn
       (case maxRetries of None \<Rightarrow> RETRY_ATTEMPTS E | Some n \<Rightarrow> n)
       (case delay of None \<Rightarrow> RETRY_DELAY E | Some d \<Rightarrow> d)
       0 None s []"

subsection \<open>Sequences of calls\<close>

text \<open>
  Calls on \<open>apiClient\<close> made one after the other: requests, uploads, and the two
  mutations of the default headers.
\<close>

datatype client_call =
    Request string request_config
  | Upload string upload_file request_config
  | SetDefaultHeaders "string \<rightharpoonup> string"
  | RemoveDefaultHeader string

fun run_call :: "env \<Rightarrow> client_state \<Rightarrow> client_call \<Rightarrow> client_state" where
  "run_call E st (Request endpoint config) = snd (request E st endpoint config)"
| "run_call E st (Upload endpoint f config) = snd (upload E st endpoint f config)"
| "run_call E st (SetDefaultHeaders hs) = setDefaultHeaders hs st"
| "run_call E st (RemoveDefaultHeader headerName) = removeDefaultHeader headerName st"

fun run_calls :: "env \<Rightarrow> client_state \<Rightarrow> client_call list \<Rightarrow> client_state" where
  "run_calls E st [] = st"
| "run_calls E st (c # cs) = run_calls E (run_call E st c) cs"

text \<open>A call that sets or removes the default header \<open>name\<close>.\<close>

fun touches :: "string \<Rightarrow> client_call \<Rightarrow> bool" where
  "touches name (SetDefaultHeaders hs) = (hs name \<noteq> None)"
| "touches name (RemoveDefaultHeader headerName) = (headerName = name)"
| "touches name c = False"

text \<open>A request or upload reaches \<open>fetch\<close> when the URL builder returns.\<close>

fun reaches_fetch :: "env \<Rightarrow> client_call \<Rightarrow> bool" where
  "reaches_fetch E (Request endpoint config) =
     (case buildApiUrl E endpoint of Inl e \<Rightarrow> False | Inr url \<Rightarrow> True)"
| "reaches_fetch E (Upload endpoint f config) =
     (case buildApiUrl E endpoint of Inl e \<Rightarrow> False | Inr url \<Rightarrow> True)"
| "reaches_fetch E c = False"

text \<open>What the headers object of the call itself yields for \<open>name\<close> when spread.\<close>

fun own_header :: "string \<Rightarrow> client_call \<Rightarrow> string option" where
  "own_header name (Request endpoint config) = spread_headers (headers config) name"
| "own_header name (Upload endpoint f config) = spread_headers (headers config) name"
| "own_header name c = None"

text \<open>The requests handed to \<open>fetch\<close> since the state \<open>st0\<close>.\<close>

definition sent_since :: "client_state \<Rightarrow> client_state \<Rightarrow> (string \<times> request_config) list" where
  "sent_since st0 st = drop (length (sent st0)) (sent st)"

text \<open>The value of a header in a request handed to \<open>fetch\<close>.\<close>

definition header_sent :: "string \<Rightarrow> string \<times> request_config \<Rightarrow> string option" where
  "header_sent name s = spread_headers (headers (snd s)) name"

subsection \<open>The default messages as the specification lists them\<close>

text \<open>
  The specification's table of fallback messages by exact status code, written
  from its words; \<open>handleResponse\<close> above has the \<open>switch\<close> of the source.
\<close>

definition default_message :: "env \<Rightarrow> int \<Rightarrow> string" where
  "default_message E code =
     (if code = 400 then INVALID_DATA
      else if code = 401 then UNAUTHORIZED E
      else if code = 403 then FORBIDDEN E
      else if code = 404 then NOT_FOUND E
      else SERVER_ERROR E)"

subsection \<open>Concrete inputs\<close>

text \<open>
  The delay of a timer as the HTML standard has it: the argument is converted to
  a signed 32-bit integer, and a negative result counts as 0.
\<close>

definition html_timer_delay :: "int \<Rightarrow> nat" where
  "html_timer_delay ms =
     (let w = (ms + 2147483648) mod 4294967296 - 2147483648 in if w < 0 then 0 else nat w)"

text \<open>
  The decimal digits of an integer, which is how JavaScript prints every integer
  below \<open>10\<^sup>2\<^sup>1\<close>; the examples contain no other number.
\<close>

definition integer_digits :: "rat \<Rightarrow> string" where
  "integer_digits q =
     (if q < 0 then ''-'' @ decimal (nat \<lfloor>- q\<rfloor>) else decimal (nat \<lfloor>q\<rfloor>))"

text \<open>
  An environment for the examples: a URL builder that prefixes a base URL, a
  transport that does the given thing after 120 milliseconds, a timeout of ten
  seconds, an empty \<open>API_CONFIG.DEFAULT_HEADERS\<close> and six distinct messages.
\<close>

definition example_env :: "net_event \<Rightarrow> env" where
  "example_env ev =
     \<lparr>buildApiUrl = (\<lambda>endpoint. Inr (''https://api.example.test'' @ endpoint)),
      fetch = (\<lambda>resource init. ev),
      latency = (\<lambda>resource init. 120),
      timer_delay = html_timer_delay,
      abort_message = ''signal is aborted without reason'',
      number_to_string = integer_digits,
      TIMEOUT = 10000,
      DEFAULT_HEADERS = Map.empty,
      RETRY_ATTEMPTS = 3,
      RETRY_DELAY = 1000,
      UNAUTHORIZED = ''Unauthorized'',
      FORBIDDEN = ''Forbidden'',
      NOT_FOUND = ''Not found'',
      SERVER_ERROR = ''Server error'',
      TIMEOUT_ERROR = ''Request timeout'',
      NETWORK_ERROR = ''Network error''\<rparr>"

text \<open>The same with a transport that takes \<open>t\<close> milliseconds.\<close>

definition slow_env :: "nat \<Rightarrow> net_event \<Rightarrow> env" where
  "slow_env t ev = (example_env ev)\<lparr>latency := (\<lambda>resource init. t)\<rparr>"

text \<open>A response declared as JSON whose \<open>json()\<close> settles as given, at once.\<close>

definition json_response :: "int \<Rightarrow> thrown + jsval \<Rightarrow> response" where
  "json_response code parsed =
     \<lparr>status = code, content_type = Some ''application/json; charset=utf-8'',
      json_body = parsed, text_body = Inr [], read_ms = 0\<rparr>"

definition json_headers :: "string \<rightharpoonup> string" where
  "json_headers = [''Content-Type'' \<mapsto> ''application/json'']"

text \<open>Two operations for \<open>retryRequest\<close>, counting their invocations in the state:
  one fails twice and then succeeds, one fails every time with the number of the
  attempt.\<close>

definition flaky_op :: "int \<Rightarrow> (thrown + jsval) \<times> int" where
  "flaky_op n =
     (if n < 2 then Inl (JsError ''Error'' ''unavailable'') else Inr (JStr ''ready''), n + 1)"

definition failing_op :: "int \<Rightarrow> (thrown + jsval) \<times> int" where
  "failing_op n = (Inl (NonError (JNum (of_int (n + 1)))), n + 1)"

section \<open>Properties\<close>

lemmas example_defs = example_env_def json_response_def initial_state_def empty_config_def

lemmas request_defs = request_def fetchWithTimeout_def fetch_init_def timeout_of_def setTimeout_def
  clearTimeout_def timer_fired_def elapse_def handleResponse_def read_body_def ok_def
  request_catch_def throw_ApiError_def spread_headers_def js_or_def html_timer_delay_def Let_def

lemma fetch_stage_response:
  "buildApiUrl E endpoint = Inr url \<Longrightarrow> fst (fetchWithTimeout E st url config) = Inr r
   \<Longrightarrow> fst (request E st endpoint config) = handleResponse E r"
  by (auto simp: request_def split: prod.splits sum.splits)

lemma throw_ApiError_string [simp]:
  "throw_ApiError E code (JStr s) d = ApiErr (ApiError code (JStr s) d)"
  by (simp add: throw_ApiError_def)

lemma fetch_init_setTimeout [simp]:
  "fetch_init (snd (setTimeout ms st)) config = fetch_init st config"
  by (simp add: fetch_init_def setTimeout_def)

lemma throw_ApiError_converted:
  "message \<noteq> JUndefined \<Longrightarrow> to_string (number_to_string E) message = Inr s
   \<Longrightarrow> throw_ApiError E code message d = ApiErr (ApiError code (JStr s) d)"
  by (simp add: throw_ApiError_def)

lemma request_state:
  "defaultHeaders (snd (request E st endpoint config)) = defaultHeaders st
   \<and> sent (snd (request E st endpoint config))
       = sent st @ (case buildApiUrl E endpoint of Inl e \<Rightarrow> [] | Inr url \<Rightarrow> [(url, fetch_init st config)])"
proof (cases "buildApiUrl E endpoint")
  case (Inl e)
  then show ?thesis by (simp add: request_def)
next
  case (Inr url)
  then show ?thesis
    by (cases "fetch E url (fetch_init st config)")
       (simp_all add: request_def fetchWithTimeout_def setTimeout_def clearTimeout_def
          timer_fired_def elapse_def fetch_init_def Let_def split: prod.splits sum.splits)
qed

lemma upload_own_headers:
  "spread_headers (headers (spread_config
      (empty_config\<lparr>method := Some ''POST'', body := Some b, headers := Some (HeadersRecord Map.empty)\<rparr>)
      config)) = spread_headers (headers config)"
  by (simp add: spread_config_def spread_headers_def empty_config_def split: option.splits)

lemma spread_headers_record [simp]: "spread_headers (Some (HeadersRecord m)) = m"
  by (simp add: spread_headers_def)

lemma header_sent_fetch_init:
  "header_sent name (url, fetch_init st config)
     = (case spread_headers (headers config) name of None \<Rightarrow> defaultHeaders st name
        | Some w \<Rightarrow> Some w)"
  by (simp add: header_sent_def fetch_init_def map_add_def)

lemma run_call_step:
  assumes "\<not> touches name c"
  shows "\<exists>new. sent (run_call E st c) = sent st @ new
          \<and> map (header_sent name) new =
              (if reaches_fetch E c
               then [case own_header name c of None \<Rightarrow> defaultHeaders st name | Some w \<Rightarrow> Some w]
               else [])
          \<and> defaultHeaders (run_call E st c) name = defaultHeaders st name"
proof (cases c)
  case (Request endpoint config)
  then show ?thesis
    using request_state [of E st endpoint config]
    by (cases "buildApiUrl E endpoint") (simp_all add: header_sent_fetch_init)
next
  case (Upload endpoint f config)
  then show ?thesis
    using request_state [of E st endpoint
        "spread_config (empty_config\<lparr>method := Some ''POST'', body := Some (FormData [(''file'', f)]),
                 headers := Some (HeadersRecord Map.empty)\<rparr>) config"]
    by (cases "buildApiUrl E endpoint")
       (simp_all add: upload_def Let_def header_sent_fetch_init upload_own_headers)
next
  case (SetDefaultHeaders hs)
  then show ?thesis
    using assms by (simp add: setDefaultHeaders_def map_add_def)
next
  case (RemoveDefaultHeader k)
  then show ?thesis
    using assms by (simp add: removeDefaultHeader_def)
qed

lemma run_calls_sent:
  assumes "\<forall>c \<in> set calls. \<not> touches name c"
  shows "\<exists>news. sent (run_calls E st calls) = sent st @ news
          \<and> map (header_sent name) news =
              map (\<lambda>c. case own_header name c of None \<Rightarrow> defaultHeaders st name | Some w \<Rightarrow> Some w)
                (filter (reaches_fetch E) calls)"
  using assms
proof (induction calls arbitrary: st)
  case Nil
  show ?case by simp
next
  case (Cons c cs)
  from Cons.prems have nc: "\<not> touches name c" and ncs: "\<forall>c \<in> set cs. \<not> touches name c"
    by simp_all
  obtain new where new: "sent (run_call E st c) = sent st @ new"
    "map (header_sent name) new =
       (if reaches_fetch E c
        then [case own_header name c of None \<Rightarrow> defaultHeaders st name | Some w \<Rightarrow> Some w]
        else [])"
    "defaultHeaders (run_call E st c) name = defaultHeaders st name"
    using run_call_step [OF nc] by blast
  obtain news where news: "sent (run_calls E (run_call E st c) cs) = sent (run_call E st c) @ news"
    "map (header_sent name) news =
       map (\<lambda>c'. case own_header name c' of None \<Rightarrow> defaultHeaders (run_call E st c) name
                  | Some w \<Rightarrow> Some w)
         (filter (reaches_fetch E) cs)"
    using Cons.IH [OF ncs] by blast
  have "sent (run_calls E st (c # cs)) = sent st @ (new @ news)"
    using new(1) news(1) by simp
  moreover have "map (header_sent name) (new @ news) =
      map (\<lambda>c. case own_header name c of None \<Rightarrow> defaultHeaders st name | Some w \<Rightarrow> Some w)
        (filter (reaches_fetch E) (c # cs))"
    using new(2) news(2) [unfolded new(3)] by simp
  ultimately show ?case by blast
qed

lemma run_calls_prefix: "take (length (sent st)) (sent (run_calls E st calls)) = sent st"
proof (induction calls arbitrary: st)
  case Nil
  show ?case by simp
next
  case (Cons c cs)
  have "\<exists>new. sent (run_call E st c) = sent st @ new"
  proof (cases c)
    case (Request endpoint config)
    then show ?thesis using request_state [of E st endpoint config] by simp
  next
    case (Upload endpoint f config)
    then show ?thesis
      using request_state [of E st endpoint] by (simp add: upload_def Let_def)
  qed (simp_all add: setDefaultHeaders_def removeDefaultHeader_def)
  then obtain new where new: "sent (run_call E st c) = sent st @ new" by blast
  have "take (length (sent st @ new)) (sent (run_calls E (run_call E st c) cs)) = sent st @ new"
    using Cons.IH [of "run_call E st c"] new by simp
  then have "take (length (sent st)) (take (length (sent st @ new)) (sent (run_calls E (run_call E st c) cs)))
      = take (length (sent st)) (sent st @ new)"
    by simp
  then show ?case by (simp add: min_def)
qed

subsection \<open>Failures that leave \<open>request\<close>\<close>

text \<open>
  C1. Every failure of \<open>request\<close> should be an \<open>ApiError\<close>. The code at a 200
  response declared as JSON whose body is the JSON text \<open>null\<close>: \<open>data.data\<close>
  throws a \<open>TypeError\<close> inside \<open>handleResponse\<close>, whose promise \<open>request\<close> returns
  without awaiting it, so the \<open>TypeError\<close> itself is what the caller receives.
\<close>

theorem request_null_body_escapes_catch:
  "fst (request (example_env (Replied (json_response 200 (Inr JNull))))
          (initial_state (example_env (Replied (json_response 200 (Inr JNull)))))
          ''/users'' empty_config)
   = Inl (JsError ''TypeError'' (null_access_message ''null'' ''data''))"
  by (simp add: example_defs request_defs)

subsection \<open>Successful responses\<close>

text \<open>
  C2, as amended. For every 2xx response whose body is read as a value other than
  \<open>null\<close> (or \<open>undefined\<close>): when the value is an object with a truthy \<open>data\<close>
  property \<open>X\<close>, \<open>request\<close> resolves to \<open>X\<close>; in every other case (no \<open>data\<close>
  property, or a falsy one) it resolves to the whole value.
\<close>

theorem request_unwraps_truthy_data:
  assumes "buildApiUrl E endpoint = Inr url"
    and "fst (fetchWithTimeout E st url config) = Inr r"
    and "ok r" and "read_body r = Inr b" and "b \<noteq> JNull" and "b \<noteq> JUndefined"
  shows "fst (request E st endpoint config) =
     Inr (case b of
            JObj fs \<Rightarrow> (case map_of fs ''data'' of None \<Rightarrow> b | Some X \<Rightarrow> if truthy X then X else b)
          | _ \<Rightarrow> b)"
proof -
  have "handleResponse E r =
     Inr (case b of
            JObj fs \<Rightarrow> (case map_of fs ''data'' of None \<Rightarrow> b | Some X \<Rightarrow> if truthy X then X else b)
          | _ \<Rightarrow> b)"
    using assms(3-6)
    by (cases b) (simp_all add: handleResponse_def js_or_def split: option.splits)
  with fetch_stage_response [OF assms(1,2)] show ?thesis by simp
qed

text \<open>The theorem at the body \<open>{"data": [1], "total": 1}\<close> of a 200 response.\<close>

theorem request_unwraps_truthy_data_witness:
  "buildApiUrl (example_env (Replied (json_response 200 (Inr (JObj [(''data'', JArr [JNum 1]), (''total'', JNum 1)])))))
     ''/users'' = Inr ''https://api.example.test/users''
   \<and> ok (json_response 200 (Inr (JObj [(''data'', JArr [JNum 1]), (''total'', JNum 1)])))
   \<and> read_body (json_response 200 (Inr (JObj [(''data'', JArr [JNum 1]), (''total'', JNum 1)])))
       = Inr (JObj [(''data'', JArr [JNum 1]), (''total'', JNum 1)])
   \<and> fst (request (example_env (Replied (json_response 200 (Inr (JObj [(''data'', JArr [JNum 1]), (''total'', JNum 1)])))))
           (initial_state (example_env (Replied (json_response 200 (Inr (JObj [(''data'', JArr [JNum 1]), (''total'', JNum 1)]))))))
           ''/users'' empty_config)
       = Inr (JArr [JNum 1])"
  using request_unwraps_truthy_data
    [of "example_env (Replied (json_response 200 (Inr (JObj [(''data'', JArr [JNum 1]), (''total'', JNum 1)]))))"
        "''/users''" "''https://api.example.test/users''"
        "initial_state (example_env (Replied (json_response 200 (Inr (JObj [(''data'', JArr [JNum 1]), (''total'', JNum 1)])))))"
        empty_config
        "json_response 200 (Inr (JObj [(''data'', JArr [JNum 1]), (''total'', JNum 1)]))"
        "JObj [(''data'', JArr [JNum 1]), (''total'', JNum 1)]"]
  by (simp add: example_defs fetchWithTimeout_def fetch_init_def timeout_of_def setTimeout_def
        clearTimeout_def elapse_def html_timer_delay_def read_body_def ok_def spread_headers_def
        Let_def)

text \<open>
  C2 as stated fails at the body \<open>{"data": 0}\<close> of a 200 response: \<open>request\<close>
  resolves to the whole body, not to \<open>0\<close>.
\<close>

theorem request_falsy_data_not_unwrapped:
  "fst (request (example_env (Replied (json_response 200 (Inr (JObj [(''data'', JNum 0)])))))
          (initial_state (example_env (Replied (json_response 200 (Inr (JObj [(''data'', JNum 0)]))))))
          ''/users'' empty_config)
     = Inr (JObj [(''data'', JNum 0)])
   \<and> fst (request (example_env (Replied (json_response 200 (Inr (JObj [(''data'', JNum 0)])))))
          (initial_state (example_env (Replied (json_response 200 (Inr (JObj [(''data'', JNum 0)]))))))
          ''/users'' empty_config)
     \<noteq> Inr (JNum 0)"
  by (simp add: example_defs request_defs)

subsection \<open>Failing responses\<close>

text \<open>
  C3, as amended. For every non-2xx response whose body is read successfully,
  \<open>handleResponse\<close> fails with an \<open>ApiError\<close> whose status is the response's
  status; whose message is the string conversion of the \<open>message\<close> property of
  the body (the property itself when it is a string) when the body is an object that
  has one and it is truthy, and otherwise the default of the status code (400, 401,
  403, 404, any other); and whose data is the body when it is an object or an array,
  and the empty object otherwise. This is for a message whose string conversion
  succeeds.
\<close>

theorem handleResponse_failure_error:
  assumes "\<not> ok r" and "read_body r = Inr b"
    and "to_string (number_to_string E)
           (case (case b of JObj fs \<Rightarrow> map_of fs ''message'' | _ \<Rightarrow> None) of
              None \<Rightarrow> JStr (default_message E (status r))
            | Some m \<Rightarrow> if truthy m then m else JStr (default_message E (status r)))
         = Inr s"
  shows "handleResponse E r =
     Inl (ApiErr (ApiError (status r) (JStr s)
       (Some (case b of JObj fs \<Rightarrow> b | JArr xs \<Rightarrow> b | _ \<Rightarrow> JObj []))))"
proof -
  let ?d = "JStr (default_message E (status r))"
  let ?safe = "if truthy b \<and> typeof_object b then b else JObj []"
  have safe: "?safe = (case b of JObj fs \<Rightarrow> b | JArr xs \<Rightarrow> b | _ \<Rightarrow> JObj [])"
    by (cases b) simp_all
  obtain m where m: "get_member ?safe ''message'' = Inr m"
    and chosen: "js_or m ?d =
      (case (case b of JObj fs \<Rightarrow> map_of fs ''message'' | _ \<Rightarrow> None) of
              None \<Rightarrow> ?d | Some m \<Rightarrow> if truthy m then m else ?d)"
    by (cases b) (auto simp: js_or_def split: option.splits)
  have conv: "to_string (number_to_string E) (js_or m ?d) = Inr s"
    using assms(3) chosen by simp
  have "js_or m ?d \<noteq> JUndefined"
    by (auto simp: js_or_def)
  then have thr: "throw_ApiError E (status r) (js_or m ?d) (Some ?safe)
      = ApiErr (ApiError (status r) (JStr s) (Some ?safe))"
    using conv by (rule throw_ApiError_converted)
  have "handleResponse E r = Inl (throw_ApiError E (status r) (js_or m ?d) (Some ?safe))"
    using assms(1,2) m
    by (simp add: handleResponse_def default_message_def Let_def del: throw_ApiError_string)
  with thr safe show ?thesis by simp
qed

text \<open>
  The theorem at a 404 response with the body \<open>{"message": "No such user"}\<close>, and
  at 400 responses whose \<open>message\<close> is the number 42 and the array
  \<open>["a", null, "b"]\<close>.
\<close>

theorem handleResponse_failure_error_witness:
  "\<not> ok (json_response 404 (Inr (JObj [(''message'', JStr ''No such user'')])))
   \<and> read_body (json_response 404 (Inr (JObj [(''message'', JStr ''No such user'')])))
       = Inr (JObj [(''message'', JStr ''No such user'')])
   \<and> handleResponse (example_env Never) (json_response 404 (Inr (JObj [(''message'', JStr ''No such user'')])))
       = Inl (ApiErr (ApiError 404 (JStr ''No such user'') (Some (JObj [(''message'', JStr ''No such user'')]))))
   \<and> to_string (number_to_string (example_env Never)) (JNum 42) = Inr ''42''
   \<and> handleResponse (example_env Never) (json_response 400 (Inr (JObj [(''message'', JNum 42)])))
       = Inl (ApiErr (ApiError 400 (JStr ''42'') (Some (JObj [(''message'', JNum 42)]))))
   \<and> to_string (number_to_string (example_env Never)) (JArr [JStr ''a'', JNull, JStr ''b'']) = Inr ''a,,b''
   \<and> handleResponse (example_env Never)
        (json_response 400 (Inr (JObj [(''message'', JArr [JStr ''a'', JNull, JStr ''b''])])))
       = Inl (ApiErr (ApiError 400 (JStr ''a,,b'')
            (Some (JObj [(''message'', JArr [JStr ''a'', JNull, JStr ''b''])]))))"
  using handleResponse_failure_error
      [of "json_response 404 (Inr (JObj [(''message'', JStr ''No such user'')]))"
        "JObj [(''message'', JStr ''No such user'')]" "example_env Never" "''No such user''"]
    handleResponse_failure_error
      [of "json_response 400 (Inr (JObj [(''message'', JNum 42)]))"
        "JObj [(''message'', JNum 42)]" "example_env Never" "''42''"]
    handleResponse_failure_error
      [of "json_response 400 (Inr (JObj [(''message'', JArr [JStr ''a'', JNull, JStr ''b''])]))"
        "JObj [(''message'', JArr [JStr ''a'', JNull, JStr ''b''])]" "example_env Never" "''a,,b''"]
  by (simp add: json_response_def read_body_def ok_def example_env_def integer_digits_def
        decimal.simps)

text \<open>
  C3 as stated fails at a 400 response with the body \<open>{"message": ""}\<close>: the body
  has a \<open>message\<close> property, and the error carries the default message instead.
\<close>

theorem handleResponse_empty_message_defaulted:
  "handleResponse (example_env Never) (json_response 400 (Inr (JObj [(''message'', JStr [])])))
     = Inl (ApiErr (ApiError 400 (JStr INVALID_DATA) (Some (JObj [(''message'', JStr [])]))))
   \<and> handleResponse (example_env Never) (json_response 400 (Inr (JObj [(''message'', JStr [])])))
     \<noteq> Inl (ApiErr (ApiError 400 (JStr []) (Some (JObj [(''message'', JStr [])]))))"
  by (simp add: example_defs request_defs INVALID_DATA_def)

text \<open>
  C4. When reading the body fails (\<open>json()\<close> rejects on a response declared as
  JSON, or \<open>text()\<close> rejects otherwise), \<open>handleResponse\<close> fails with an
  \<open>ApiError\<close> that has the response's own status, also a 2xx one, the fixed
  invalid-format message and no data.
\<close>

theorem handleResponse_unreadable_body:
  "read_body r = Inl e \<Longrightarrow>
   handleResponse E r =
     Inl (ApiErr (ApiError (status r) (JStr ''Invalid response format from server'') None))"
  by (simp add: handleResponse_def INVALID_FORMAT_def)

text \<open>The theorem at a 200 response declared as JSON whose body does not parse.\<close>

theorem handleResponse_unreadable_body_witness:
  "read_body (json_response 200 (Inl (JsError ''SyntaxError'' ''Unexpected end of JSON input'')))
     = Inl (JsError ''SyntaxError'' ''Unexpected end of JSON input'')
   \<and> handleResponse (example_env Never)
        (json_response 200 (Inl (JsError ''SyntaxError'' ''Unexpected end of JSON input'')))
     = Inl (ApiErr (ApiError 200 (JStr ''Invalid response format from server'') None))"
  using handleResponse_unreadable_body
    [of "json_response 200 (Inl (JsError ''SyntaxError'' ''Unexpected end of JSON input''))"
        "JsError ''SyntaxError'' ''Unexpected end of JSON input''" "example_env Never"]
  by (simp add: read_body_def json_response_def)

subsection \<open>The \<open>catch\<close> block of \<open>request\<close>\<close>

text \<open>
  C5, as amended. For every exception \<open>e\<close> raised by the URL builder or by the
  timeout-guarded fetch: an \<open>ApiError\<close> passes through unchanged; any other
  \<open>Error\<close> named \<open>AbortError\<close> becomes \<open>ApiError(408, timeout message)\<close>;
  otherwise an \<open>Error\<close> whose message includes \<open>Failed to fetch\<close> becomes
  \<open>ApiError(0, cannot-connect message)\<close>; every other \<open>Error\<close> becomes
  \<open>ApiError(0, network-error message)\<close>; and a thrown value that is no \<open>Error\<close>
  becomes \<open>ApiError(0, server-error message)\<close>. An \<open>ApiError\<close> with which the
  response interpreter fails leaves \<open>request\<close> unchanged as well.
\<close>

theorem request_catch_classification:
  "(buildApiUrl E endpoint = Inl e \<or>
    (\<exists>url. buildApiUrl E endpoint = Inr url \<and> fst (fetchWithTimeout E st url config) = Inl e)
    \<longrightarrow> fst (request E st endpoint config) =
      Inl (ApiErr (case e of
         ApiErr a \<Rightarrow> a
       | JsError name msg \<Rightarrow>
           if name = ''AbortError'' then ApiError 408 (JStr (TIMEOUT_ERROR E)) None
           else if includes_str msg ''Failed to fetch'' then ApiError 0 (JStr CANNOT_CONNECT) None
           else ApiError 0 (JStr (NETWORK_ERROR E)) None
       | NonError v \<Rightarrow> ApiError 0 (JStr (SERVER_ERROR E)) None)))
   \<and> (buildApiUrl E' endpoint' = Inr url' \<and> fst (fetchWithTimeout E' st' url' config') = Inr r
       \<and> handleResponse E' r = Inl (ApiErr a')
    \<longrightarrow> fst (request E' st' endpoint' config') = Inl (ApiErr a'))"
  by (auto simp: request_def request_catch_def split: prod.splits sum.splits thrown.splits)

text \<open>
  The theorem at a transport that rejects with \<open>TypeError: Failed to fetch\<close>, and
  at a 404 response with an empty object as body.
\<close>

theorem request_catch_classification_witness:
  "fst (fetchWithTimeout (example_env (Failed (JsError ''TypeError'' ''Failed to fetch'')))
          (initial_state (example_env (Failed (JsError ''TypeError'' ''Failed to fetch''))))
          ''https://api.example.test/users'' empty_config)
     = Inl (JsError ''TypeError'' ''Failed to fetch'')
   \<and> fst (request (example_env (Failed (JsError ''TypeError'' ''Failed to fetch'')))
          (initial_state (example_env (Failed (JsError ''TypeError'' ''Failed to fetch''))))
          ''/users'' empty_config)
     = Inl (ApiErr (ApiError 0 (JStr CANNOT_CONNECT) None))
   \<and> handleResponse (example_env (Replied (json_response 404 (Inr (JObj [])))))
          (json_response 404 (Inr (JObj [])))
     = Inl (ApiErr (ApiError 404 (JStr ''Not found'') (Some (JObj []))))
   \<and> fst (request (example_env (Replied (json_response 404 (Inr (JObj [])))))
          (initial_state (example_env (Replied (json_response 404 (Inr (JObj []))))))
          ''/users'' empty_config)
     = Inl (ApiErr (ApiError 404 (JStr ''Not found'') (Some (JObj []))))"
  using request_catch_classification
    [of "example_env (Failed (JsError ''TypeError'' ''Failed to fetch''))" "''/users''"
        "JsError ''TypeError'' ''Failed to fetch''"
        "initial_state (example_env (Failed (JsError ''TypeError'' ''Failed to fetch'')))"
        empty_config
        "example_env (Replied (json_response 404 (Inr (JObj []))))" "''/users''"
        "''https://api.example.test/users''"
        "initial_state (example_env (Replied (json_response 404 (Inr (JObj [])))))"
        empty_config "json_response 404 (Inr (JObj []))"
        "ApiError 404 (JStr ''Not found'') (Some (JObj []))"]
  by (simp add: example_defs fetchWithTimeout_def fetch_init_def timeout_of_def setTimeout_def
        clearTimeout_def elapse_def html_timer_delay_def handleResponse_def read_body_def ok_def
        spread_headers_def js_or_def Let_def)

text \<open>
  C5 as stated fails when the value thrown is no \<open>Error\<close> (here the string
  \<open>boom\<close>): the last branch of the \<open>catch\<close> block gives the server-error
  message, not the network-error message.
\<close>

theorem request_non_error_gets_server_message:
  "fst (request (example_env (Failed (NonError (JStr ''boom''))))
          (initial_state (example_env (Failed (NonError (JStr ''boom'')))))
          ''/users'' empty_config)
     = Inl (ApiErr (ApiError 0 (JStr ''Server error'') None))
   \<and> fst (request (example_env (Failed (NonError (JStr ''boom''))))
          (initial_state (example_env (Failed (NonError (JStr ''boom'')))))
          ''/users'' empty_config)
     \<noteq> Inl (ApiErr (ApiError 0
            (JStr (NETWORK_ERROR (example_env (Failed (NonError (JStr ''boom'')))))) None))"
  by (simp add: example_defs request_defs)

subsection \<open>The retry loop\<close>

text \<open>
  C6. \<open>retryRequest(op, 3, 10)\<close> with an operation that fails twice and then
  succeeds resolves with the value of the third invocation after exactly three
  invocations and two waits of 10, one between consecutive attempts and none after
  the success. With an operation that fails three times it rejects with the error
  of the third invocation itself, after exactly three invocations (and two waits,
  none after the last failure).
\<close>

theorem retryRequest_three_attempts:
  fixes f :: "'s \<Rightarrow> (thrown + 'a) \<times> 's" and g :: "'t \<Rightarrow> (thrown + 'b) \<times> 't"
  shows "(f s0 = (Inl e1, s1) \<and> f s1 = (Inl e2, s2) \<and> f s2 = (Inr v, s3)
      \<longrightarrow> retryRequest E f (Some 3) (Some 10) s0
            = (Inr v, s3, [Invoked, Waited 10, Invoked, Waited 10, Invoked]))
   \<and> (g t0 = (Inl d1, t1) \<and> g t1 = (Inl d2, t2) \<and> g t2 = (Inl d3, t3)
      \<longrightarrow> retryRequest E g (Some 3) (Some 10) t0
            = (Inl d3, t3, [Invoked, Waited 10, Invoked, Waited 10, Invoked]))"
  by (simp add: retryRequest_def)

text \<open>The theorem at the two example operations, started with the counter at 0.\<close>

theorem retryRequest_three_attempts_witness:
  "flaky_op 0 = (Inl (JsError ''Error'' ''unavailable''), 1)
   \<and> flaky_op 1 = (Inl (JsError ''Error'' ''unavailable''), 2)
   \<and> flaky_op 2 = (Inr (JStr ''ready''), 3)
   \<and> retryRequest (example_env Never) flaky_op (Some 3) (Some 10) 0
       = (Inr (JStr ''ready''), 3, [Invoked, Waited 10, Invoked, Waited 10, Invoked])
   \<and> failing_op 0 = (Inl (NonError (JNum 1)), 1)
   \<and> failing_op 1 = (Inl (NonError (JNum 2)), 2)
   \<and> failing_op 2 = (Inl (NonError (JNum 3)), 3)
   \<and> retryRequest (example_env Never) failing_op (Some 3) (Some 10) 0
       = (Inl (NonError (JNum 3)), 3, [Invoked, Waited 10, Invoked, Waited 10, Invoked])"
  using retryRequest_three_attempts
    [of flaky_op 0 "JsError ''Error'' ''unavailable''" 1 "JsError ''Error'' ''unavailable''" 2
        "JStr ''ready''" 3 "example_env Never"
        failing_op 0 "NonError (JNum 1)" 1 "NonError (JNum 2)" 2 "NonError (JNum 3)" 3]
  by (simp add: flaky_op_def failing_op_def)

text \<open>
  C7. With \<open>maxRetries = 0\<close> the operation is never invoked (its state is
  untouched and the trace is empty) and \<open>retryRequest\<close> throws the
  never-assigned \<open>lastError\<close>, that is \<open>undefined\<close>.
\<close>

theorem retryRequest_zero_attempts:
  "retryRequest E requestFn (Some 0) delay s = (Inl (NonError JUndefined), s, [])"
  by (simp add: retryRequest_def)

subsection \<open>Headers of the outgoing request\<close>

text \<open>
  C8. An upload should send no \<open>Content-Type\<close> header. The code after
  \<open>setDefaultHeaders({"Content-Type": "application/json"})\<close>, at an upload without
  a configuration: the one request handed to \<open>fetch\<close> is the POST of the form
  data, and its headers hold \<open>Content-Type: application/json\<close>, because
  \<open>fetchWithTimeout\<close> lays the default headers under the empty headers that
  \<open>upload\<close> passes.
\<close>

theorem upload_sends_default_content_type:
  "map (\<lambda>(url, init). (url, method init, body init, spread_headers (headers init) ''Content-Type''))
     (sent (snd (upload (example_env (Failed (JsError ''TypeError'' ''Failed to fetch'')))
        (setDefaultHeaders json_headers
           (initial_state (example_env (Failed (JsError ''TypeError'' ''Failed to fetch'')))))
        ''/files'' (File ''scan.png'' ''PNG'') empty_config)))
   = [(''https://api.example.test/files'', Some ''POST'',
       Some (FormData [(''file'', File ''scan.png'' ''PNG'')]), Some ''application/json'')]"
  by (simp add: upload_def spread_config_def example_defs request_defs setDefaultHeaders_def
        json_headers_def)

text \<open>
  C10, as amended. Take any later calls (requests, uploads, mutations of the
  default headers) none of which sets or removes \<open>name\<close> itself. After
  \<open>setDefaultHeaders({name: v})\<close> every such request hands \<open>fetch\<close> headers in
  which \<open>name\<close> is \<open>v\<close>, or the value that the spread of the call's own headers
  yields for \<open>name\<close> (its entry when they are a plain object; a \<open>Headers\<close>
  instance yields none). After \<open>removeDefaultHeader(name)\<close> every such request has
  \<open>name\<close> only with the value that the call's own headers yield, and the other
  default entries are unchanged. Neither mutation, and no later call, changes the
  requests handed to \<open>fetch\<close> before.
\<close>

theorem default_header_mutations:
  assumes "\<forall>c \<in> set calls. \<not> touches name c"
  shows "map (header_sent name) (sent_since st (run_calls E (setDefaultHeaders [name \<mapsto> v] st) calls))
       = map (\<lambda>c. case own_header name c of None \<Rightarrow> Some v | Some w \<Rightarrow> Some w)
           (filter (reaches_fetch E) calls)
     \<and> map (header_sent name) (sent_since st (run_calls E (removeDefaultHeader name st) calls))
       = map (own_header name) (filter (reaches_fetch E) calls)
     \<and> (\<forall>k. k \<noteq> name \<longrightarrow> defaultHeaders (removeDefaultHeader name st) k = defaultHeaders st k)
     \<and> sent (setDefaultHeaders hs st) = sent st
     \<and> sent (removeDefaultHeader name st) = sent st
     \<and> take (length (sent st)) (sent (run_calls E (setDefaultHeaders hs st) calls)) = sent st
     \<and> take (length (sent st)) (sent (run_calls E (removeDefaultHeader name st) calls)) = sent st"
proof -
  have s1: "sent (setDefaultHeaders hs st) = sent st" for hs
    by (simp add: setDefaultHeaders_def)
  have s2: "sent (removeDefaultHeader name st) = sent st"
    by (simp add: removeDefaultHeader_def)
  have d1: "defaultHeaders (setDefaultHeaders [name \<mapsto> v] st) name = Some v"
    by (simp add: setDefaultHeaders_def)
  have d2: "defaultHeaders (removeDefaultHeader name st) name = None"
    by (simp add: removeDefaultHeader_def)
  have a: "map (header_sent name) (sent_since st (run_calls E (setDefaultHeaders [name \<mapsto> v] st) calls))
       = map (\<lambda>c. case own_header name c of None \<Rightarrow> Some v | Some w \<Rightarrow> Some w)
           (filter (reaches_fetch E) calls)"
    using run_calls_sent [OF assms, of E "setDefaultHeaders [name \<mapsto> v] st", unfolded d1 s1]
    by (auto simp: sent_since_def)
  have b: "map (header_sent name) (sent_since st (run_calls E (removeDefaultHeader name st) calls))
       = map (own_header name) (filter (reaches_fetch E) calls)"
  proof -
    have "(\<lambda>c. case own_header name c of None \<Rightarrow> None | Some w \<Rightarrow> Some w) = own_header name"
      by (rule ext) (simp split: option.splits)
    then show ?thesis
      using run_calls_sent [OF assms, of E "removeDefaultHeader name st", unfolded d2 s2]
      by (auto simp: sent_since_def)
  qed
  have c: "\<forall>k. k \<noteq> name \<longrightarrow> defaultHeaders (removeDefaultHeader name st) k = defaultHeaders st k"
    by (simp add: removeDefaultHeader_def)
  have t1: "take (length (sent st)) (sent (run_calls E (setDefaultHeaders hs st) calls)) = sent st"
    using run_calls_prefix [of "setDefaultHeaders hs st" E calls] by (simp add: s1)
  have t2: "take (length (sent st)) (sent (run_calls E (removeDefaultHeader name st) calls)) = sent st"
    using run_calls_prefix [of "removeDefaultHeader name st" E calls] by (simp add: s2)
  from a b c s1 s2 t1 t2 show ?thesis by blast
qed

text \<open>
  The theorem at \<open>X-Foo: bar\<close>: set on the initial state and followed by a
  request, the setting of another header, an upload that brings its own \<open>X-Foo\<close>
  and a request; then removed again and followed by two requests.
\<close>

theorem default_header_mutations_witness:
  "\<not> touches ''X-Foo'' (Request ''/users'' empty_config)
   \<and> \<not> touches ''X-Foo'' (SetDefaultHeaders [''X-Trace'' \<mapsto> ''1''])
   \<and> \<not> touches ''X-Foo''
         (Upload ''/files'' (File ''scan.png'' ''PNG'')
            (empty_config\<lparr>headers := Some (HeadersRecord [''X-Foo'' \<mapsto> ''own''])\<rparr>))
   \<and> \<not> touches ''X-Foo'' (Request ''/tags'' empty_config)
   \<and> map (header_sent ''X-Foo'')
       (sent_since (initial_state (example_env Never))
          (run_calls (example_env Never)
             (setDefaultHeaders [''X-Foo'' \<mapsto> ''bar''] (initial_state (example_env Never)))
             [Request ''/users'' empty_config,
              SetDefaultHeaders [''X-Trace'' \<mapsto> ''1''],
              Upload ''/files'' (File ''scan.png'' ''PNG'')
                (empty_config\<lparr>headers := Some (HeadersRecord [''X-Foo'' \<mapsto> ''own''])\<rparr>),
              Request ''/tags'' empty_config]))
     = [Some ''bar'', Some ''own'', Some ''bar'']
   \<and> map (header_sent ''X-Foo'')
       (sent_since (setDefaultHeaders [''X-Foo'' \<mapsto> ''bar''] (initial_state (example_env Never)))
          (run_calls (example_env Never)
             (removeDefaultHeader ''X-Foo''
                (setDefaultHeaders [''X-Foo'' \<mapsto> ''bar''] (initial_state (example_env Never))))
             [Request ''/users'' empty_config, Request ''/tags'' empty_config]))
     = [None, None]
   \<and> ''Accept'' \<noteq> ''X-Foo''
   \<and> defaultHeaders (removeDefaultHeader ''X-Foo''
         (setDefaultHeaders [''X-Foo'' \<mapsto> ''bar''] (initial_state (example_env Never))))
        ''Accept''
     = Some ''application/json''"
  using default_header_mutations
    [where E = "example_env Never" and name = "''X-Foo''" and v = "''bar''"
       and st = "initial_state (example_env Never)" and hs = "[''X-Foo'' \<mapsto> ''bar'']"
       and calls = "[Request ''/users'' empty_config,
              SetDefaultHeaders [''X-Trace'' \<mapsto> ''1''],
              Upload ''/files'' (File ''scan.png'' ''PNG'')
                (empty_config\<lparr>headers := Some (HeadersRecord [''X-Foo'' \<mapsto> ''own''])\<rparr>),
              Request ''/tags'' empty_config]"]
    default_header_mutations
    [where E = "example_env Never" and name = "''X-Foo''" and v = "''bar''"
       and st = "setDefaultHeaders [''X-Foo'' \<mapsto> ''bar''] (initial_state (example_env Never))"
       and hs = "[''X-Foo'' \<mapsto> ''bar'']"
       and calls = "[Request ''/users'' empty_config, Request ''/tags'' empty_config]"]
  by (simp add: example_defs spread_headers_def setDefaultHeaders_def map_add_def)

text \<open>
  C10 as stated fails for a request that supplies \<open>X-Foo\<close> itself: after the
  removal its outgoing headers still have the key, with the caller's value. And
  the caller does not win per key when its headers are a \<open>Headers\<close> instance:
  after the setting, such a request is sent with the default value.
\<close>

theorem removed_header_supplied_by_caller:
  "map (header_sent ''X-Foo'')
     (sent_since (initial_state (example_env Never))
        (run_calls (example_env Never)
           (removeDefaultHeader ''X-Foo''
              (setDefaultHeaders [''X-Foo'' \<mapsto> ''bar''] (initial_state (example_env Never))))
           [Request ''/users''
              (empty_config\<lparr>headers := Some (HeadersRecord [''X-Foo'' \<mapsto> ''baz''])\<rparr>)]))
     = [Some ''baz'']
   \<and> map (header_sent ''X-Foo'')
     (sent_since (initial_state (example_env Never))
        (run_calls (example_env Never)
           (setDefaultHeaders [''X-Foo'' \<mapsto> ''bar''] (initial_state (example_env Never)))
           [Request ''/users''
              (empty_config\<lparr>headers := Some (HeadersInstance [(''X-Foo'', ''baz'')])\<rparr>)]))
     = [Some ''bar'']"
  by (simp add: example_defs request_defs sent_since_def header_sent_def setDefaultHeaders_def
        removeDefaultHeader_def)

subsection \<open>The timeout guard\<close>

text \<open>
  C9, as amended. Every call of \<open>fetchWithTimeout\<close> schedules one timer with
  the timeout of the call (\<open>config.timeout\<close>, else \<open>API_CONFIG.TIMEOUT\<close>) and
  clears it on the way out: after the response or the rejection of the transport
  when that comes before the timer is due, and otherwise after the timer has run.
  The timer is not pending afterwards and no other timer is touched. When the
  transport has not settled by the time the timer is due, \<open>request\<close> fails with
  \<open>ApiError(408, timeout message)\<close> at that time. (The guard ends when \<open>fetch\<close>
  settles; the reading of the body is not under it.)
\<close>

theorem fetchWithTimeout_clears_timer:
  "timer_log (snd (fetchWithTimeout E st resource config))
     = timer_log st @
       (if fetch E resource (fetch_init st config) \<noteq> Never
           \<and> latency E resource (fetch_init st config) < timer_delay E (timeout_of E config)
        then [Scheduled (next_timer st) (timeout_of E config), Cleared (next_timer st)]
        else [Scheduled (next_timer st) (timeout_of E config), Fired (next_timer st),
              Cleared (next_timer st)])
   \<and> pending (snd (fetchWithTimeout E st resource config)) = (pending st)(next_timer st := None)
   \<and> (buildApiUrl E endpoint = Inr url
        \<and> (fetch E url (fetch_init st config) = Never
           \<or> timer_delay E (timeout_of E config) < latency E url (fetch_init st config))
      \<longrightarrow> fst (request E st endpoint config)
            = Inl (ApiErr (ApiError 408 (JStr (TIMEOUT_ERROR E)) None))
          \<and> clock (snd (request E st endpoint config))
            = clock st + timer_delay E (timeout_of E config))"
proof (intro conjI impI)
  show "timer_log (snd (fetchWithTimeout E st resource config))
     = timer_log st @
       (if fetch E resource (fetch_init st config) \<noteq> Never
           \<and> latency E resource (fetch_init st config) < timer_delay E (timeout_of E config)
        then [Scheduled (next_timer st) (timeout_of E config), Cleared (next_timer st)]
        else [Scheduled (next_timer st) (timeout_of E config), Fired (next_timer st),
              Cleared (next_timer st)])"
    by (cases "fetch E resource (fetch_init st config)")
       (simp_all add: fetchWithTimeout_def setTimeout_def clearTimeout_def timer_fired_def
          elapse_def fetch_init_def Let_def)
next
  show "pending (snd (fetchWithTimeout E st resource config)) = (pending st)(next_timer st := None)"
    by (cases "fetch E resource (fetch_init st config)")
       (simp_all add: fetchWithTimeout_def setTimeout_def clearTimeout_def timer_fired_def
          elapse_def fetch_init_def Let_def)
next
  assume a: "buildApiUrl E endpoint = Inr url
        \<and> (fetch E url (fetch_init st config) = Never
           \<or> timer_delay E (timeout_of E config) < latency E url (fetch_init st config))"
  then have f: "fetchWithTimeout E st url config
      = (Inl (JsError ''AbortError'' (abort_message E)),
         clearTimeout (next_timer st) (timer_fired (next_timer st)
           (elapse (timer_delay E (timeout_of E config))
             ((snd (setTimeout (timeout_of E config) st))
                \<lparr>sent := sent st @ [(url, fetch_init st config)]\<rparr>))))"
    by (cases "fetch E url (fetch_init st config)")
       (auto simp: fetchWithTimeout_def Let_def setTimeout_def fetch_init_def)
  show "fst (request E st endpoint config) = Inl (ApiErr (ApiError 408 (JStr (TIMEOUT_ERROR E)) None))"
    using a f by (simp add: request_def request_catch_def)
  show "clock (snd (request E st endpoint config)) = clock st + timer_delay E (timeout_of E config)"
    using a f by (simp add: request_def clearTimeout_def timer_fired_def elapse_def setTimeout_def)
qed

text \<open>
  The theorem at a transport that would answer after 15 seconds, with the timeout
  of 10 seconds.
\<close>

theorem fetchWithTimeout_clears_timer_witness:
  "buildApiUrl (slow_env 15000 (Replied (json_response 200 (Inr (JObj []))))) ''/users''
     = Inr ''https://api.example.test/users''
   \<and> timer_delay (slow_env 15000 (Replied (json_response 200 (Inr (JObj [])))))
        (timeout_of (slow_env 15000 (Replied (json_response 200 (Inr (JObj []))))) empty_config) = 10000
   \<and> latency (slow_env 15000 (Replied (json_response 200 (Inr (JObj [])))))
        ''https://api.example.test/users''
        (fetch_init (initial_state (slow_env 15000 (Replied (json_response 200 (Inr (JObj [])))))) empty_config)
       = 15000
   \<and> fst (request (slow_env 15000 (Replied (json_response 200 (Inr (JObj [])))))
          (initial_state (slow_env 15000 (Replied (json_response 200 (Inr (JObj [])))))) ''/users'' empty_config)
     = Inl (ApiErr (ApiError 408 (JStr ''Request timeout'') None))
   \<and> clock (snd (request (slow_env 15000 (Replied (json_response 200 (Inr (JObj [])))))
          (initial_state (slow_env 15000 (Replied (json_response 200 (Inr (JObj [])))))) ''/users'' empty_config))
     = 10000
   \<and> timer_log (snd (fetchWithTimeout (slow_env 15000 (Replied (json_response 200 (Inr (JObj [])))))
          (initial_state (slow_env 15000 (Replied (json_response 200 (Inr (JObj []))))))
          ''https://api.example.test/users'' empty_config))
     = [Scheduled 0 10000, Fired 0, Cleared 0]
   \<and> pending (snd (fetchWithTimeout (slow_env 15000 (Replied (json_response 200 (Inr (JObj [])))))
          (initial_state (slow_env 15000 (Replied (json_response 200 (Inr (JObj []))))))
          ''https://api.example.test/users'' empty_config)) 0
     = None"
  using fetchWithTimeout_clears_timer
    [where E = "slow_env 15000 (Replied (json_response 200 (Inr (JObj []))))"
       and st = "initial_state (slow_env 15000 (Replied (json_response 200 (Inr (JObj [])))))"
       and resource = "''https://api.example.test/users''" and config = empty_config
       and endpoint = "''/users''" and url = "''https://api.example.test/users''"]
  by (simp add: slow_env_def example_env_def initial_state_def timeout_of_def empty_config_def
        html_timer_delay_def)

text \<open>
  C9 as stated fails for a request whose response arrives in time and whose body
  then takes a minute to read: with a timeout of 10 seconds the request lasts
  60120 milliseconds and resolves; the timer was cleared when the response arrived.
\<close>

theorem request_slow_body_outlasts_timeout:
  "TIMEOUT (example_env (Replied ((json_response 200 (Inr (JObj [])))\<lparr>read_ms := 60000\<rparr>))) = 10000
   \<and> clock (initial_state
        (example_env (Replied ((json_response 200 (Inr (JObj [])))\<lparr>read_ms := 60000\<rparr>)))) = 0
   \<and> fst (request (example_env (Replied ((json_response 200 (Inr (JObj [])))\<lparr>read_ms := 60000\<rparr>)))
        (initial_state (example_env (Replied ((json_response 200 (Inr (JObj [])))\<lparr>read_ms := 60000\<rparr>))))
        ''/users'' empty_config)
     = Inr (JObj [])
   \<and> clock (snd (request (example_env (Replied ((json_response 200 (Inr (JObj [])))\<lparr>read_ms := 60000\<rparr>)))
        (initial_state (example_env (Replied ((json_response 200 (Inr (JObj [])))\<lparr>read_ms := 60000\<rparr>))))
        ''/users'' empty_config))
     = 60120
   \<and> timer_log (snd (request (example_env (Replied ((json_response 200 (Inr (JObj [])))\<lparr>read_ms := 60000\<rparr>)))
        (initial_state (example_env (Replied ((json_response 200 (Inr (JObj [])))\<lparr>read_ms := 60000\<rparr>))))
        ''/users'' empty_config))
     = [Scheduled 0 10000, Cleared 0]"
  by (simp add: example_defs request_defs)

end
